theory Spec2Isabelle
  imports Complex_Main "HOL-Library.Word"
begin

unbundle bit_operations_syntax

section \<open>Machine types\<close>

text \<open>
  \<^verbatim>\<open>C.int\<close> is a 32-bit two's complement integer; Go's \<^verbatim>\<open>int\<close>, pointers and
  \<^verbatim>\<open>uintptr\<close> have the 64 bits of a 64-bit target. Signed comparisons are
  \<open><s\<close> and \<open>\<le>s\<close>, signed values are read with \<open>sint\<close>, and conversions between
  signed widths are \<open>scast\<close> (sign extension).
\<close>

type_synonym cint = "32 word"
type_synonym goint = "64 word"
type_synonym ptr = "64 word"

definition nil :: ptr where
  "nil = 0"

text \<open>\<^verbatim>\<open>sizeOfPtr\<close>, set in \<^verbatim>\<open>init\<close> to \<^verbatim>\<open>unsafe.Sizeof(&e)\<close>.\<close>

definition sizeOfPtr :: goint where
  "sizeOfPtr = 8"

section \<open>Errors\<close>

text \<open>
  A Go \<^verbatim>\<open>error\<close> is \<open>error option\<close>, \<open>None\<close> for \<^verbatim>\<open>nil\<close>. \<open>EOF\<close> is the sentinel
  \<^verbatim>\<open>io.EOF\<close>, \<open>AvError n\<close> the error built from \<^verbatim>\<open>av_strerror(n)\<close>, and
  \<open>ErrorString s\<close> is \<^verbatim>\<open>errors.New(s)\<close>.
\<close>

datatype error = EOF | AvError cint | ErrorString string

text \<open>\<^verbatim>\<open>AVERROR_EOF\<close> is \<^verbatim>\<open>FFERRTAG('E','O','F',' ')\<close> of libavutil.\<close>

definition AVERROR_EOF :: cint where
  "AVERROR_EOF = - 541478725"

definition avError :: "cint \<Rightarrow> error" where
  "avError errnum = (if errnum = AVERROR_EOF then EOF else AvError errnum)"

section \<open>The outside world\<close>

text \<open>
  The calls into libavformat, libavcodec, libswresample and the C allocator are effects.
  Each one is appended to a log, with the arguments the Go code passes, and what the
  call answers is an input of the model: no assumption is made about the libraries.
  \<^verbatim>\<open>C.malloc\<close> is the exception. The code tests its result against nil, and the model
  keeps the test, but cgo's \<^verbatim>\<open>C.malloc\<close> never returns nil: when the C allocator fails the
  Go runtime aborts the process. An answer of nil therefore stands for no run of the
  program, and the theorems that depend on an allocation assume the answer is not nil.
  The memory cells that hold plane pointers are a map from addresses to pointers.
\<close>

datatype ext_call =
    Call_av_free_packet ptr cint
  | Call_av_read_frame
  | Call_avcodec_decode_audio4 ptr cint
  | Call_swr_alloc_set_opts "64 word" "32 word" cint "64 word" "32 word" cint
  | Call_swr_init ptr
  | Call_malloc goint
  | Call_free ptr
  | Call_swr_convert ptr ptr cint ptr cint

record world =
  mem :: "ptr \<Rightarrow> ptr"
  calls :: "ext_call list"

definition call :: "ext_call \<Rightarrow> world \<Rightarrow> world" where
  "call c w = w\<lparr>calls := calls w @ [c]\<rparr>"

fun store_cells :: "(ptr \<times> ptr) list \<Rightarrow> (ptr \<Rightarrow> ptr) \<Rightarrow> (ptr \<Rightarrow> ptr)" where
  "store_cells [] m = m"
| "store_cells ((a, v) # cs) m = store_cells cs (m(a := v))"

text \<open>
  The pure functions of the libraries and the \<^verbatim>\<open>float64\<close> operations the code uses are
  parameters: every theorem holds for all of them, so for every rounding behaviour.
\<close>

record 'f platform =
  av_get_channel_layout_nb_channels :: "64 word \<Rightarrow> cint"
  av_get_bytes_per_sample :: "32 word \<Rightarrow> cint"
  float64_of_int :: "goint \<Rightarrow> 'f"
  float64_of_cint :: "cint \<Rightarrow> 'f"
  float64_div :: "'f \<Rightarrow> 'f \<Rightarrow> 'f"
  float64_mul :: "'f \<Rightarrow> 'f \<Rightarrow> 'f"
  math_Ceil :: "'f \<Rightarrow> 'f"
  cint_of_float64 :: "'f \<Rightarrow> cint"

section \<open>Sample formats and audio formats\<close>

text \<open>
  \<^verbatim>\<open>type SampleFmt int8\<close>; the constants take the values of
  \<^verbatim>\<open>enum AVSampleFormat\<close> in \<^verbatim>\<open>libavutil/samplefmt.h\<close>.
\<close>

type_synonym SampleFmt = "8 word"

definition NoSamples :: SampleFmt where "NoSamples = - 1"
definition PackedU8s :: SampleFmt where "PackedU8s = 0"
definition PackedS16s :: SampleFmt where "PackedS16s = 1"
definition PackedS32s :: SampleFmt where "PackedS32s = 2"
definition PackedFloats :: SampleFmt where "PackedFloats = 3"
definition PackedDoubles :: SampleFmt where "PackedDoubles = 4"
definition PlanarU8s :: SampleFmt where "PlanarU8s = 5"
definition PlanarS16s :: SampleFmt where "PlanarS16s = 6"
definition PlanarS32s :: SampleFmt where "PlanarS32s = 7"
definition PlanarFloats :: SampleFmt where "PlanarFloats = 8"
definition PlanarDoubles :: SampleFmt where "PlanarDoubles = 9"

type_synonym ChannelLayout = "64 word"

record AudioFormat =
  Rate :: goint
  Storage :: SampleFmt
  Layout :: ChannelLayout

definition Equal :: "AudioFormat \<Rightarrow> AudioFormat \<Rightarrow> bool" where
  "Equal this that \<longleftrightarrow>
     Rate this = Rate that \<and> Storage this = Storage that \<and> Layout this = Layout that"

definition NumChannels :: "'f platform \<Rightarrow> AudioFormat \<Rightarrow> goint" where
  "NumChannels P format = scast (av_get_channel_layout_nb_channels P (Layout format))"

definition NumPlanes :: "'f platform \<Rightarrow> AudioFormat \<Rightarrow> goint" where
  "NumPlanes P format =
     (if Storage format \<in> {PackedU8s, PackedS16s, PackedS32s, PackedFloats, PackedDoubles}
      then 1
      else if Storage format \<in> {PlanarU8s, PlanarS16s, PlanarS32s, PlanarFloats, PlanarDoubles}
      then NumChannels P format
      else 0)"

section \<open>Sample streams\<close>

text \<open>
  \<^verbatim>\<open>read_raw\<close> returns the plane table, the frames per plane and the error.
  A value of the interface \<^verbatim>\<open>SampleStream\<close> is a state of some type \<open>'s\<close> with the
  methods of its dynamic type; \<open>'e\<close> is what the outside world answers during one
  \<^verbatim>\<open>read_raw\<close> of that type.
\<close>

type_synonym raw = "ptr \<times> cint \<times> error option"

record ('s, 'e) SampleStream =
  Format :: "'s \<Rightarrow> AudioFormat"
  read_raw :: "'e \<Rightarrow> 's \<times> world \<Rightarrow> raw \<times> 's \<times> world"

section \<open>The decoder stage: \<^verbatim>\<open>AudioStream\<close>\<close>

text \<open>
  The fields of \<^verbatim>\<open>audio.pkt\<close> and \<^verbatim>\<open>audio.frame\<close> the code reads are fields of the
  record; \<^verbatim>\<open>ctx\<close>, \<^verbatim>\<open>idx\<close> and \<^verbatim>\<open>stream\<close> are handles the code only passes on.
\<close>

record AudioStream =
  audio_ctx :: ptr
  audio_idx :: cint
  audio_stream :: ptr
  audio_fmt :: AudioFormat
  audio_orig_data :: ptr
  audio_orig_size :: cint
  audio_pkt_data :: ptr
  audio_pkt_size :: cint
  audio_frame_extended_data :: ptr
  audio_frame_nb_samples :: cint
  audio_framesEOF :: bool

text \<open>
  What the libraries answer during one \<^verbatim>\<open>read_raw\<close> of an \<^verbatim>\<open>AudioStream\<close>:
  the return value of \<^verbatim>\<open>av_read_frame\<close> and the packet it leaves, the return value of
  \<^verbatim>\<open>avcodec_decode_audio4\<close>, the flag it stores in \<^verbatim>\<open>gotFrame\<close>, the two frame fields
  it leaves and the plane-pointer cells it writes.
\<close>

record audio_env =
  read_frame_r :: cint
  read_frame_data :: ptr
  read_frame_size :: cint
  decode_n :: cint
  decode_gotFrame :: cint
  decode_extended_data :: ptr
  decode_nb_samples :: cint
  decode_cells :: "(ptr \<times> ptr) list"

definition AudioStream_Format :: "AudioStream \<Rightarrow> AudioFormat" where
  "AudioStream_Format audio = audio_fmt audio"

text \<open>
  \<^verbatim>\<open>av_free_packet\<close> leaves the packet with a nil \<^verbatim>\<open>data\<close> and a \<^verbatim>\<open>size\<close> of 0;
  \<^verbatim>\<open>av_read_frame\<close> then overwrites both. No code of the repository assigns
  \<^verbatim>\<open>audio.orig\<close>.
\<close>

definition read_frame ::
  "audio_env \<Rightarrow> AudioStream \<times> world \<Rightarrow> error option \<times> AudioStream \<times> world" where
  "read_frame e = (\<lambda>(audio, w).
     let (audio, w) =
           (if audio_orig_data audio \<noteq> nil
            then
              let audio = audio\<lparr>audio_pkt_data := audio_orig_data audio\<rparr>;
                  audio = audio\<lparr>audio_pkt_size := audio_orig_size audio\<rparr>;
                  w = call (Call_av_free_packet (audio_pkt_data audio) (audio_pkt_size audio)) w
              in (audio\<lparr>audio_pkt_data := nil, audio_pkt_size := 0\<rparr>, w)
            else (audio, w));
         w = call Call_av_read_frame w;
         audio = audio\<lparr>audio_pkt_data := read_frame_data e, audio_pkt_size := read_frame_size e\<rparr>;
         r = read_frame_r e
     in if r = 0 then (None, audio, w) else (Some (avError r), audio, w))"

definition decode ::
  "audio_env \<Rightarrow> AudioStream \<times> world \<Rightarrow> (bool \<times> error option) \<times> AudioStream \<times> world" where
  "decode e = (\<lambda>(audio, w).
     let w = call (Call_avcodec_decode_audio4 (audio_pkt_data audio) (audio_pkt_size audio)) w;
         w = w\<lparr>mem := store_cells (decode_cells e) (mem w)\<rparr>;
         audio = audio\<lparr>audio_frame_extended_data := decode_extended_data e,
                       audio_frame_nb_samples := decode_nb_samples e\<rparr>;
         gotFrame = decode_gotFrame e;
         n = decode_n e
     in if n <s 0 then ((False, Some (avError n)), audio, w)
        else
          let n = (if audio_pkt_size audio <s n then audio_pkt_size audio else n);
              audio = audio\<lparr>audio_pkt_size := audio_pkt_size audio - n\<rparr>;
              audio = audio\<lparr>audio_pkt_data := audio_pkt_data audio + scast n\<rparr>
          in ((gotFrame \<noteq> 0, None), audio, w))"

text \<open>
  \<^verbatim>\<open>read_raw\<close> in two parts: \<open>AudioStream_next_packet\<close> is its first \<^verbatim>\<open>if\<close> block
  (lines 171 to 178), whose result \<open>Some err\<close> is the \<^verbatim>\<open>return nil, 0, err\<close> inside it;
  the rest of the body follows in \<open>AudioStream_read_raw\<close>.
\<close>

definition AudioStream_next_packet ::
  "audio_env \<Rightarrow> AudioStream \<times> world \<Rightarrow> error option \<times> AudioStream \<times> world" where
  "AudioStream_next_packet e = (\<lambda>(audio, w).
     if audio_pkt_size audio = 0 \<and> \<not> audio_framesEOF audio
     then
       (case read_frame e (audio, w) of
          (Some EOF, audio, w) \<Rightarrow> (None, audio\<lparr>audio_framesEOF := True\<rparr>, w)
        | (Some err, audio, w) \<Rightarrow> (Some err, audio, w)
        | (None, audio, w) \<Rightarrow> (None, audio, w))
     else (None, audio, w))"

definition AudioStream_read_raw ::
  "audio_env \<Rightarrow> AudioStream \<times> world \<Rightarrow> raw \<times> AudioStream \<times> world" where
  "AudioStream_read_raw e = (\<lambda>(audio, w).
     case AudioStream_next_packet e (audio, w) of
       (Some err, audio, w) \<Rightarrow> ((nil, 0, Some err), audio, w)
     | (None, audio, w) \<Rightarrow>
         (case decode e (audio, w) of
            ((gotFrame, Some err), audio, w) \<Rightarrow> ((nil, 0, Some err), audio, w)
          | ((gotFrame, None), audio, w) \<Rightarrow>
              if \<not> gotFrame
              then (if audio_framesEOF audio
                    then ((nil, 0, Some EOF), audio, w)
                    else ((nil, 0, None), audio, w))
              else ((audio_frame_extended_data audio, audio_frame_nb_samples audio, None),
                    audio, w)))"

definition AudioStream_iface :: "(AudioStream, audio_env) SampleStream" where
  "AudioStream_iface = \<lparr>Format = AudioStream_Format, read_raw = AudioStream_read_raw\<rparr>"

text \<open>
  Successive calls on one instance: for each call, oldest first, its result and the
  state it leaves.
\<close>

fun read_raw_seq ::
  "('e \<Rightarrow> 's \<times> world \<Rightarrow> raw \<times> 's \<times> world) \<Rightarrow> 'e list \<Rightarrow> 's \<times> world
     \<Rightarrow> (raw \<times> 's \<times> world) list" where
  "read_raw_seq rd [] sw = []"
| "read_raw_seq rd (e # es) sw =
     (case rd e sw of (r, sw') \<Rightarrow> (r, sw') # read_raw_seq rd es sw')"

definition is_EOF :: "raw \<Rightarrow> bool" where
  "is_EOF r \<longleftrightarrow> snd (snd r) = Some EOF"

text \<open>No result that follows an end-of-stream result is anything else.\<close>

fun eof_stable :: "raw list \<Rightarrow> bool" where
  "eof_stable [] = True"
| "eof_stable (r # rs) = ((if is_EOF r then list_all is_EOF rs else True) \<and> eof_stable rs)"

section \<open>The resample stage: \<^verbatim>\<open>Resampler\<close>\<close>

text \<open>
  The resampler modelled here is the current one, whose source follows the decoder in
  \<^verbatim>\<open>src/audio.go\<close> (lines 212 to 402): one C block for all planes, a plane table
  allocated by \<^verbatim>\<open>Resample\<close>, and the return of zero frames when the source yields none.
  The older drafts \<^verbatim>\<open>src/resamp.go\<close> and \<^verbatim>\<open>src/unnamed/part_001\<close> manage their buffers
  differently and have no such return; their \<^verbatim>\<open>read_raw\<close> ends with the same call of
  \<^verbatim>\<open>swr_convert\<close> and the same test of its result.
\<close>

record ('s, 'f) Resampler =
  resamp_fmt :: AudioFormat
  resamp_ctx :: ptr
  resamp_source :: 's
  resamp_sourceEOF :: bool
  resamp_sratio :: 'f
  resamp_data :: ptr
  resamp_nplanes :: goint
  resamp_nf :: cint
  resamp_buf :: ptr

text \<open>
  What the outside answers during one \<^verbatim>\<open>read_raw\<close> of a \<^verbatim>\<open>Resampler\<close>, besides what
  it answers to the wrapped source: the pointer \<^verbatim>\<open>C.malloc\<close> returns in \<^verbatim>\<open>checkBuf\<close>
  and the return value of \<^verbatim>\<open>swr_convert\<close>.
\<close>

record resamp_env =
  malloc_ret :: ptr
  swr_convert_ret :: cint

definition Resampler_Format :: "('s, 'f) Resampler \<Rightarrow> AudioFormat" where
  "Resampler_Format resamp = resamp_fmt resamp"

text \<open>The loop of \<^verbatim>\<open>checkBuf\<close> that points plane \<open>i\<close> at offset \<open>i * bpc\<close> of the block.\<close>

function plane_loop ::
  "goint \<Rightarrow> goint \<Rightarrow> ptr \<Rightarrow> ptr \<Rightarrow> goint \<Rightarrow> (ptr \<Rightarrow> ptr) \<Rightarrow> (ptr \<Rightarrow> ptr)" where
  "plane_loop i nplanes data_0 buf_0 bpc m =
     (if i <s nplanes
      then plane_loop (i + 1) nplanes data_0 buf_0 bpc
             (m(data_0 + i * sizeOfPtr := buf_0 + i * bpc))
      else m)"
  by pat_completeness auto
termination
proof (relation "measure (\<lambda>(i, nplanes, _). nat (sint nplanes - sint i))")
  show "wf (measure (\<lambda>(i, nplanes, _). nat (sint nplanes - sint i)))"
    by simp
next
  fix i nplanes data_0 buf_0 :: goint and bpc :: goint and m :: "ptr \<Rightarrow> ptr"
  assume "i <s nplanes"
  then have less: "sint i < sint nplanes"
    by (simp add: word_sless_alt)
  moreover have "sint nplanes < 2 ^ 63" "- (2 ^ 63) \<le> sint i"
    using sint_lt [of nplanes] sint_ge [of i] by simp_all
  ultimately have "signed_take_bit 63 (sint i + 1) = sint i + 1"
    by (intro signed_take_bit_int_eq_self) auto
  then have "sint (i + 1) = sint i + 1"
    by (simp add: sint_word_ariths)
  with less show "((i + 1, nplanes, data_0, buf_0, bpc, m(data_0 + i * sizeOfPtr := buf_0 + i * bpc)),
                   (i, nplanes, data_0, buf_0, bpc, m))
                  \<in> measure (\<lambda>(i, nplanes, _). nat (sint nplanes - sint i))"
    by simp
qed

definition checkBuf ::
  "'f platform \<Rightarrow> resamp_env \<Rightarrow> cint \<Rightarrow> ('s, 'f) Resampler \<times> world
     \<Rightarrow> error option \<times> ('s, 'f) Resampler \<times> world" where
  "checkBuf P e nf = (\<lambda>(resamp, w).
     if resamp_nf resamp <s nf
     then
       let bpc = (scast (nf * av_get_bytes_per_sample P (scast (Storage (resamp_fmt resamp)))) :: goint);
           nbytes = bpc * NumChannels P (resamp_fmt resamp);
           (resamp, w) =
             (if resamp_buf resamp \<noteq> nil
              then (resamp\<lparr>resamp_buf := nil\<rparr>, call (Call_free (resamp_buf resamp)) w)
              else (resamp, w));
           w = call (Call_malloc nbytes) w;
           resamp = resamp\<lparr>resamp_buf := malloc_ret e\<rparr>
       in if resamp_buf resamp = nil
          then (Some (ErrorString ''couldn't allocate resampler data block''), resamp, w)
          else
            let w = w\<lparr>mem := plane_loop 0 (resamp_nplanes resamp) (resamp_data resamp)
                                 (resamp_buf resamp) bpc (mem w)\<rparr>;
                resamp = resamp\<lparr>resamp_nf := nf\<rparr>
            in (None, resamp, w)
     else (None, resamp, w))"

text \<open>\<^verbatim>\<open>C.int(math.Ceil(float64(nf) * resamp.sratio))\<close>, the argument of \<^verbatim>\<open>checkBuf\<close>.\<close>

definition required_capacity :: "'f platform \<Rightarrow> 'f \<Rightarrow> cint \<Rightarrow> cint" where
  "required_capacity P sratio nf =
     cint_of_float64 P (math_Ceil P (float64_mul P (float64_of_cint P nf) sratio))"

text \<open>
  \<^verbatim>\<open>read_raw\<close> in two parts: \<open>Resampler_pull\<close> is the \<^verbatim>\<open>if !resamp.sourceEOF\<close> block
  (lines 359 to 375). It yields \<open>Inl r\<close> for a \<^verbatim>\<open>return\<close> inside the block, and
  \<open>Inr (in, nf)\<close> when control goes on to \<^verbatim>\<open>swr_convert\<close> with these two variables.
  \<open>Resampler_read_raw\<close> is the whole method.
\<close>

definition Resampler_pull ::
  "'f platform \<Rightarrow> ('s, 'e) SampleStream \<Rightarrow> 'e \<times> resamp_env \<Rightarrow> ('s, 'f) Resampler \<times> world
     \<Rightarrow> (raw + ptr \<times> cint) \<times> ('s, 'f) Resampler \<times> world" where
  "Resampler_pull P src = (\<lambda>(es, e) (resamp, w).
     if \<not> resamp_sourceEOF resamp
     then
       (case read_raw src es (resamp_source resamp, w) of
          ((in_planes, nf, err), s, w) \<Rightarrow>
            let resamp = resamp\<lparr>resamp_source := s\<rparr>;
                (early, resamp) =
                  (case err of
                     Some EOF \<Rightarrow> (None, resamp\<lparr>resamp_sourceEOF := True\<rparr>)
                   | Some err \<Rightarrow> (Some (nil, 0, Some err), resamp)
                   | None \<Rightarrow>
                       if nf = 0 then (Some (nil, 0, None), resamp) else (None, resamp))
            in case early of
                 Some r \<Rightarrow> (Inl r, resamp, w)
               | None \<Rightarrow>
                   (case checkBuf P e (required_capacity P (resamp_sratio resamp) nf)
                           (resamp, w) of
                      (Some err, resamp, w) \<Rightarrow> (Inl (nil, 0, Some err), resamp, w)
                    | (None, resamp, w) \<Rightarrow> (Inr (in_planes, nf), resamp, w)))
     else (Inr (nil, 0), resamp, w))"

definition Resampler_read_raw ::
  "'f platform \<Rightarrow> ('s, 'e) SampleStream \<Rightarrow> 'e \<times> resamp_env \<Rightarrow> ('s, 'f) Resampler \<times> world
     \<Rightarrow> raw \<times> ('s, 'f) Resampler \<times> world" where
  "Resampler_read_raw P src = (\<lambda>(es, e) (resamp, w).
     case Resampler_pull P src (es, e) (resamp, w) of
       (Inl r, resamp, w) \<Rightarrow> (r, resamp, w)
     | (Inr (in_planes, nf), resamp, w) \<Rightarrow>
         let w = call (Call_swr_convert (resamp_ctx resamp) (resamp_data resamp)
                         (resamp_nf resamp) in_planes nf) w;
             nfout = swr_convert_ret e
         in if nfout = 0 then ((nil, 0, Some EOF), resamp, w)
            else ((resamp_data resamp, nfout, None), resamp, w))"

definition Resampler_iface ::
  "'f platform \<Rightarrow> ('s, 'e) SampleStream \<Rightarrow> (('s, 'f) Resampler, 'e \<times> resamp_env) SampleStream" where
  "Resampler_iface P src = \<lparr>Format = Resampler_Format, read_raw = Resampler_read_raw P src\<rparr>"

subsection \<open>\<^verbatim>\<open>Resample\<close>\<close>

text \<open>
  \<^verbatim>\<open>Resample\<close> returns either the source it was given or a new \<^verbatim>\<open>Resampler\<close>.
  What the outside answers: the context \<^verbatim>\<open>swr_alloc_set_opts\<close> returns, the return
  value of \<^verbatim>\<open>swr_init\<close> and the pointer \<^verbatim>\<open>C.malloc\<close> returns for the plane table.
\<close>

datatype ('s, 'f) Resample_result = The_source 's | New_Resampler "('s, 'f) Resampler"

record resample_env =
  swr_alloc_set_opts_ret :: ptr
  swr_init_ret :: cint
  data_malloc_ret :: ptr

definition Resample ::
  "'f platform \<Rightarrow> ('s, 'e) SampleStream \<Rightarrow> resample_env \<Rightarrow> 's \<Rightarrow> AudioFormat \<Rightarrow> world
     \<Rightarrow> (error + ('s, 'f) Resample_result) \<times> world" where
  "Resample P src e source to w =
     (let resamp = \<lparr>resamp_fmt = to, resamp_ctx = nil, resamp_source = source,
                     resamp_sourceEOF = False, resamp_sratio = float64_of_int P 0,
                     resamp_data = nil, resamp_nplanes = 0, resamp_nf = 0, resamp_buf = nil\<rparr>;
          from = Format src source
      in if Equal from to then (Inr (The_source source), w)
         else
           let w = call (Call_swr_alloc_set_opts
                           (Layout to) (scast (Storage to)) (ucast (Rate to))
                           (Layout from) (scast (Storage from)) (ucast (Rate from))) w;
               resamp = resamp\<lparr>resamp_ctx := swr_alloc_set_opts_ret e\<rparr>
           in if resamp_ctx resamp = nil
              then (Inl (ErrorString ''couldn't allocate resampling context''), w)
              else
                let resamp = resamp\<lparr>resamp_sratio :=
                               float64_div P (float64_of_int P (Rate to))
                                 (float64_of_int P (Rate from))\<rparr>;
                    w = call (Call_swr_init (resamp_ctx resamp)) w;
                    r = swr_init_ret e
                in if r <s 0 then (Inl (avError r), w)
                   else
                     let resamp = resamp\<lparr>resamp_nplanes := NumPlanes P from\<rparr>;
                         w = call (Call_malloc (NumPlanes P from * sizeOfPtr)) w;
                         resamp = resamp\<lparr>resamp_data := data_malloc_ret e\<rparr>
                     in if resamp_data resamp = nil
                        then (Inl (ErrorString ''couldn't allocate resampler channel pointers''), w)
                        else (Inr (New_Resampler resamp), w))"

section \<open>The typed reader: \<^verbatim>\<open>PackedS16Stream\<close>\<close>

text \<open>
  A \<^verbatim>\<open>[]int16\<close> is either the literal \<^verbatim>\<open>[]int16{}\<close> or the slice built from a
  \<^verbatim>\<open>reflect.SliceHeader\<close> with its \<^verbatim>\<open>Data\<close>, \<^verbatim>\<open>Len\<close> and \<^verbatim>\<open>Cap\<close>.
\<close>

datatype int16_slice = Empty_literal | Slice_header ptr goint goint

fun len :: "int16_slice \<Rightarrow> goint" where
  "len Empty_literal = 0"
| "len (Slice_header Data Len Cap) = Len"

record 's PackedS16Stream =
  stream_source :: 's

definition NewPackedS16Stream ::
  "('s, 'e) SampleStream \<Rightarrow> 's \<Rightarrow> error + 's PackedS16Stream" where
  "NewPackedS16Stream src source =
     (if Storage (Format src source) \<noteq> PackedS16s
      then Inl (ErrorString ''sample format mismatch'')
      else Inr \<lparr>stream_source = source\<rparr>)"

definition Read ::
  "'f platform \<Rightarrow> ('s, 'e) SampleStream \<Rightarrow> 'e \<Rightarrow> 's PackedS16Stream \<times> world
     \<Rightarrow> (int16_slice \<times> error option) \<times> 's PackedS16Stream \<times> world" where
  "Read P src e = (\<lambda>(stream, w).
     case read_raw src e (stream_source stream, w) of
       ((data, nf, err), s, w) \<Rightarrow>
         let stream = stream\<lparr>stream_source := s\<rparr>;
             ns = NumChannels P (Format src (stream_source stream)) * scast nf
         in case err of
              Some err \<Rightarrow> ((Empty_literal, Some err), stream, w)
            | None \<Rightarrow>
                if data = nil then ((Empty_literal, None), stream, w)
                else ((Slice_header (mem w data) ns ns, None), stream, w))"

section \<open>Sample inputs\<close>

text \<open>
  Concrete values on which the theorems below are instantiated: a platform whose
  \<^verbatim>\<open>float64\<close> is exact rational arithmetic and whose layout table knows stereo
  (mask 3) and mono (mask 4), two formats, a freshly opened stream, three answers of
  the libraries to one \<^verbatim>\<open>read_raw\<close>, and a resampler from 48000 Hz to 44100 Hz.
\<close>

definition sample_platform :: "rat platform" where
  "sample_platform =
     \<lparr>av_get_channel_layout_nb_channels =
        (\<lambda>layout. if layout = 3 then 2 else if layout = 4 then 1 else 0),
      av_get_bytes_per_sample =
        (\<lambda>fmt. if fmt = 0 \<or> fmt = 5 then 1 else if fmt = 1 \<or> fmt = 6 then 2
                else if fmt = 2 \<or> fmt = 3 \<or> fmt = 7 \<or> fmt = 8 then 4
                else if fmt = 4 \<or> fmt = 9 then 8 else 0),
      float64_of_int = (\<lambda>i. of_int (sint i)),
      float64_of_cint = (\<lambda>i. of_int (sint i)),
      float64_div = (\<lambda>x y. x / y),
      float64_mul = (\<lambda>x y. x * y),
      math_Ceil = (\<lambda>x. of_int \<lceil>x\<rceil>),
      cint_of_float64 = (\<lambda>x. word_of_int \<lfloor>x\<rfloor>)\<rparr>"

definition stereo_s16 :: AudioFormat where
  "stereo_s16 = \<lparr>Rate = 44100, Storage = PackedS16s, Layout = 3\<rparr>"

definition stereo_fltp :: AudioFormat where
  "stereo_fltp = \<lparr>Rate = 48000, Storage = PlanarFloats, Layout = 3\<rparr>"

definition world0 :: world where
  "world0 = \<lparr>mem = (\<lambda>_. 0), calls = []\<rparr>"

definition audio0 :: AudioStream where
  "audio0 = \<lparr>audio_ctx = 0x100, audio_idx = 0, audio_stream = 0x200, audio_fmt = stereo_fltp,
              audio_orig_data = 0, audio_orig_size = 0, audio_pkt_data = 0, audio_pkt_size = 0,
              audio_frame_extended_data = 0, audio_frame_nb_samples = 0,
              audio_framesEOF = False\<rparr>"

text \<open>A packet of 1024 bytes is read and decoded whole into a frame of \<open>k\<close> samples.\<close>

definition env_frame :: "cint \<Rightarrow> audio_env" where
  "env_frame k = \<lparr>read_frame_r = 0, read_frame_data = 0x3000, read_frame_size = 1024,
                  decode_n = 1024, decode_gotFrame = 1, decode_extended_data = 0x4000,
                  decode_nb_samples = k, decode_cells = [(0x4000, 0x5000), (0x4008, 0x6000)]\<rparr>"

text \<open>A packet is read, the decoder reports 1500 bytes consumed and no frame.\<close>

definition env_no_frame :: audio_env where
  "env_no_frame = \<lparr>read_frame_r = 0, read_frame_data = 0x3000, read_frame_size = 1024,
                    decode_n = 1500, decode_gotFrame = 0, decode_extended_data = 0,
                    decode_nb_samples = 0, decode_cells = []\<rparr>"

text \<open>The demuxer reports the end of the file and the decoder has nothing buffered.\<close>

definition env_eof :: audio_env where
  "env_eof = \<lparr>read_frame_r = AVERROR_EOF, read_frame_data = 0, read_frame_size = 0,
               decode_n = 0, decode_gotFrame = 0, decode_extended_data = 0,
               decode_nb_samples = 0, decode_cells = []\<rparr>"

definition resamp0 :: "(AudioStream, rat) Resampler" where
  "resamp0 = \<lparr>resamp_fmt = stereo_s16, resamp_ctx = 0x7000, resamp_source = audio0,
               resamp_sourceEOF = False, resamp_sratio = 441 / 480, resamp_data = 0x8000,
               resamp_nplanes = 2, resamp_nf = 0, resamp_buf = 0\<rparr>"

lemmas SampleFmt_defs =
  NoSamples_def PackedU8s_def PackedS16s_def PackedS32s_def PackedFloats_def
  PackedDoubles_def PlanarU8s_def PlanarS16s_def PlanarS32s_def PlanarFloats_def
  PlanarDoubles_def

lemmas sample_defs =
  sample_platform_def stereo_s16_def stereo_fltp_def world0_def audio0_def env_frame_def
  env_no_frame_def env_eof_def resamp0_def

lemmas eval_defs =
  AudioStream_iface_def AudioStream_Format_def AudioStream_read_raw_def
  AudioStream_next_packet_def read_frame_def decode_def call_def avError_def
  AVERROR_EOF_def nil_def Let_def word_sless_alt word_sle_eq is_EOF_def
  Resampler_read_raw_def Resampler_pull_def checkBuf_def required_capacity_def
  NumChannels_def NumPlanes_def SampleFmt_defs Equal_def

section \<open>Arithmetic of the machine types\<close>

lemma smul_cint:
  fixes a b :: cint
  shows "sint ((scast a :: goint) * scast b) = sint a * sint b"
proof -
  have a: "- (2 ^ 31) \<le> sint a" "sint a < 2 ^ 31"
    using sint_ge [of a] sint_lt [of a] by simp_all
  have b: "- (2 ^ 31) \<le> sint b" "sint b < 2 ^ 31"
    using sint_ge [of b] sint_lt [of b] by simp_all
  have "\<bar>sint a * sint b\<bar> \<le> 2 ^ 31 * 2 ^ 31"
    unfolding abs_mult using a b by (intro mult_mono) auto
  then have "- (2 ^ 63) \<le> sint a * sint b" "sint a * sint b < 2 ^ 63"
    by auto
  then have "signed_take_bit 63 (sint a * sint b) = sint a * sint b"
    by (intro signed_take_bit_int_eq_self) auto
  moreover have "sint (scast a :: goint) = sint a" "sint (scast b :: goint) = sint b"
    by (simp_all add: sint_up_scast is_up)
  ultimately show ?thesis
    by (simp add: sint_word_ariths)
qed

lemma ssub_cint:
  fixes n s :: cint
  assumes "0 \<le> sint n" "sint n \<le> sint s"
  shows "sint (s - n) = sint s - sint n"
proof -
  have "sint s < 2 ^ 31"
    using sint_lt [of s] by simp
  with assms have "signed_take_bit 31 (sint s - sint n) = sint s - sint n"
    by (intro signed_take_bit_int_eq_self) auto
  then show ?thesis
    by (simp add: sint_word_ariths)
qed


section \<open>What one call does to the state\<close>

subsection \<open>\<^verbatim>\<open>checkBuf\<close> and the resampler\<close>

lemma checkBuf_err:
  "fst (checkBuf P e cap (resamp, w)) =
     (if resamp_nf resamp <s cap \<and> malloc_ret e = nil
      then Some (ErrorString ''couldn't allocate resampler data block'') else None)"
  by (simp add: checkBuf_def Let_def split_beta)

lemma checkBuf_nf:
  "resamp_nf (fst (snd (checkBuf P e cap (resamp, w)))) =
     (if resamp_nf resamp <s cap \<and> malloc_ret e \<noteq> nil then cap else resamp_nf resamp)"
  by (simp add: checkBuf_def Let_def split_beta)

lemma checkBuf_keeps:
  "resamp_sourceEOF (fst (snd (checkBuf P e cap (resamp, w)))) = resamp_sourceEOF resamp"
  "resamp_source (fst (snd (checkBuf P e cap (resamp, w)))) = resamp_source resamp"
  "resamp_sratio (fst (snd (checkBuf P e cap (resamp, w)))) = resamp_sratio resamp"
  by (simp_all add: checkBuf_def Let_def split_beta)

lemma Resampler_pull_drain:
  "resamp_sourceEOF resamp \<Longrightarrow>
     Resampler_pull P src (es, e) (resamp, w) = (Inr (nil, 0), resamp, w)"
  by (simp add: Resampler_pull_def)





lemma Resampler_pull_early:
  "fst (Resampler_pull P src (es, e) (resamp, w)) = Inl r \<Longrightarrow>
     fst (snd r) = 0 \<and> snd (snd r) \<noteq> Some EOF \<and>
     resamp_nf (fst (snd (Resampler_pull P src (es, e) (resamp, w)))) = resamp_nf resamp"
  by (auto simp: Resampler_pull_def Let_def split_beta checkBuf_nf checkBuf_err
      split: option.splits error.splits if_splits)

lemma Resampler_pull_reached:
  "fst (Resampler_pull P src (es, e) (resamp, w)) = Inr x \<Longrightarrow> \<not> resamp_sourceEOF resamp \<Longrightarrow>
     required_capacity P (resamp_sratio resamp)
       (fst (snd (fst (read_raw src es (resamp_source resamp, w)))))
     \<le>s resamp_nf (fst (snd (Resampler_pull P src (es, e) (resamp, w))))"
  by (auto simp: Resampler_pull_def Let_def split_beta checkBuf_nf checkBuf_err
        word_sle_eq word_sless_alt
      split: option.splits error.splits if_splits)

lemma Resampler_read_raw_result:
  "fst (Resampler_read_raw P src (es, e) (resamp, w)) =
     (case fst (Resampler_pull P src (es, e) (resamp, w)) of
        Inl r \<Rightarrow> r
      | Inr x \<Rightarrow>
          if swr_convert_ret e = 0 then (nil, 0, Some EOF)
          else (resamp_data (fst (snd (Resampler_pull P src (es, e) (resamp, w)))),
                swr_convert_ret e, None))"
  by (simp add: Resampler_read_raw_def Let_def split_beta split: sum.split)

subsection \<open>Calls after the source is exhausted\<close>

text \<open>
  The decoder stage returns \<^verbatim>\<open>io.EOF\<close> only with \<^verbatim>\<open>framesEOF\<close> set, unless the decoder
  itself reports \<^verbatim>\<open>AVERROR_EOF\<close> (\<open>AudioStream_EOF_sets_flag\<close>), and from then on it
  never reads a packet again. The resampler sets \<^verbatim>\<open>sourceEOF\<close> exactly when its source
  answers \<^verbatim>\<open>io.EOF\<close> (\<open>Resampler_read_raw_sourceEOF\<close>) and from then on never reads the
  source again, but its own \<^verbatim>\<open>io.EOF\<close> depends on the output of the converter alone.
\<close>

lemma AVERROR_EOF_negative: "AVERROR_EOF <s 0"
  by (simp add: AVERROR_EOF_def word_sless_alt)

lemma AudioStream_next_packet_drained:
  "audio_framesEOF audio \<Longrightarrow> AudioStream_next_packet e (audio, w) = (None, audio, w)"
  by (simp add: AudioStream_next_packet_def)

lemma AudioStream_next_packet_not_EOF:
  "fst (AudioStream_next_packet e (audio, w)) \<noteq> Some EOF"
  by (simp add: AudioStream_next_packet_def read_frame_def Let_def split_beta avError_def
      split: option.split error.split)

lemma decode_keeps_framesEOF:
  "audio_framesEOF (fst (snd (decode e (audio, w)))) = audio_framesEOF audio"
  by (simp add: decode_def Let_def)

lemma decode_result:
  "fst (decode e (audio, w)) =
     (if decode_n e <s 0 then (False, Some (avError (decode_n e)))
      else (decode_gotFrame e \<noteq> 0, None))"
  by (simp add: decode_def Let_def)

lemma decode_calls:
  "calls (snd (snd (decode e (audio, w)))) =
     calls w @ [Call_avcodec_decode_audio4 (audio_pkt_data audio) (audio_pkt_size audio)]"
  by (simp add: decode_def Let_def call_def)

lemma AudioStream_read_raw_drained:
  assumes "audio_framesEOF audio"
  shows "audio_framesEOF (fst (snd (AudioStream_read_raw e (audio, w))))"
    and "calls (snd (snd (AudioStream_read_raw e (audio, w)))) =
           calls w @ [Call_avcodec_decode_audio4 (audio_pkt_data audio) (audio_pkt_size audio)]"
    and "is_EOF (fst (AudioStream_read_raw e (audio, w))) \<longleftrightarrow>
           decode_n e = AVERROR_EOF \<or> \<not> decode_n e <s 0 \<and> decode_gotFrame e = 0"
proof -
  obtain res audio' w' where d: "decode e (audio, w) = (res, audio', w')"
    by (cases "decode e (audio, w)") auto
  have f: "audio_framesEOF audio'"
    using decode_keeps_framesEOF [of e audio w] d assms by simp
  have c: "calls w' =
           calls w @ [Call_avcodec_decode_audio4 (audio_pkt_data audio) (audio_pkt_size audio)]"
    using decode_calls [of e audio w] d by simp
  have r: "res = (if decode_n e <s 0 then (False, Some (avError (decode_n e)))
      else (decode_gotFrame e \<noteq> 0, None))"
    using decode_result [of e audio w] d by simp
  have rr: "AudioStream_read_raw e (audio, w) =
      (case res of
         (gotFrame, Some err) \<Rightarrow> ((nil, 0, Some err), audio', w')
       | (gotFrame, None) \<Rightarrow>
           if \<not> gotFrame then ((nil, 0, Some EOF), audio', w')
           else ((audio_frame_extended_data audio', audio_frame_nb_samples audio', None),
                 audio', w'))"
    using assms d f
    by (simp add: AudioStream_read_raw_def AudioStream_next_packet_drained
        split: prod.split option.split)
  show "audio_framesEOF (fst (snd (AudioStream_read_raw e (audio, w))))"
    using f by (simp add: rr r)
  show "calls (snd (snd (AudioStream_read_raw e (audio, w)))) =
           calls w @ [Call_avcodec_decode_audio4 (audio_pkt_data audio) (audio_pkt_size audio)]"
    using c by (simp add: rr r)
  show "is_EOF (fst (AudioStream_read_raw e (audio, w))) \<longleftrightarrow>
           decode_n e = AVERROR_EOF \<or> \<not> decode_n e <s 0 \<and> decode_gotFrame e = 0"
    using AVERROR_EOF_negative by (auto simp: rr r is_EOF_def avError_def)
qed

lemma AudioStream_EOF_sets_flag:
  assumes "is_EOF (fst (AudioStream_read_raw e (audio, w)))"
    and "decode_n e \<noteq> AVERROR_EOF"
  shows "audio_framesEOF (fst (snd (AudioStream_read_raw e (audio, w))))"
proof -
  obtain err audio1 w1 where n: "AudioStream_next_packet e (audio, w) = (err, audio1, w1)"
    by (cases "AudioStream_next_packet e (audio, w)") auto
  have ne: "err \<noteq> Some EOF"
    using AudioStream_next_packet_not_EOF [of e audio w] n by simp
  obtain res audio' w' where d: "decode e (audio1, w1) = (res, audio', w')"
    by (cases "decode e (audio1, w1)") auto
  have f: "audio_framesEOF audio' = audio_framesEOF audio1"
    using decode_keeps_framesEOF [of e audio1 w1] d by simp
  have r: "res = (if decode_n e <s 0 then (False, Some (avError (decode_n e)))
      else (decode_gotFrame e \<noteq> 0, None))"
    using decode_result [of e audio1 w1] d by simp
  show ?thesis
    using assms n ne d f
    by (auto simp: AudioStream_read_raw_def r is_EOF_def avError_def
        split: option.splits if_splits)
qed

lemma AudioStream_drained_seq:
  assumes "audio_framesEOF audio"
    and "list_all (\<lambda>e. \<not> decode_n e <s 0 \<and> decode_gotFrame e = 0) es"
  shows "list_all (\<lambda>x. is_EOF (fst x) \<and> audio_framesEOF (fst (snd x)))
           (read_raw_seq AudioStream_read_raw es (audio, w))"
  using assms
proof (induction es arbitrary: audio w)
  case Nil
  show ?case by simp
next
  case (Cons e es)
  obtain r audio' w' where step: "AudioStream_read_raw e (audio, w) = (r, audio', w')"
    by (cases "AudioStream_read_raw e (audio, w)") auto
  have "audio_framesEOF audio'" "is_EOF r"
    using AudioStream_read_raw_drained(1,3) [OF Cons.prems(1), of e w] step Cons.prems(2)
    by simp_all
  moreover from this Cons.prems(2)
  have "list_all (\<lambda>x. is_EOF (fst x) \<and> audio_framesEOF (fst (snd x)))
           (read_raw_seq AudioStream_read_raw es (audio', w'))"
    by (intro Cons.IH) simp_all
  ultimately show ?case
    using step by simp
qed

lemma Resampler_read_raw_drained:
  assumes "resamp_sourceEOF resamp"
  shows "Resampler_read_raw P src (es, e) (resamp, w) =
           ((if swr_convert_ret e = 0 then (nil, 0, Some EOF)
             else (resamp_data resamp, swr_convert_ret e, None)),
            resamp,
            call (Call_swr_convert (resamp_ctx resamp) (resamp_data resamp) (resamp_nf resamp)
                    nil 0) w)"
  using assms by (simp add: Resampler_read_raw_def Resampler_pull_drain Let_def)

lemma Resampler_drained_seq:
  assumes "resamp_sourceEOF resamp"
    and "list_all (\<lambda>ee. swr_convert_ret (snd ee) = 0) ees"
  shows "list_all (\<lambda>x. is_EOF (fst x) \<and> fst (snd x) = resamp)
           (read_raw_seq (Resampler_read_raw P src) ees (resamp, w))"
  using assms
proof (induction ees arbitrary: w)
  case Nil
  show ?case by simp
next
  case (Cons ee ees)
  obtain es e where ee: "ee = (es, e)"
    by (cases ee)
  from Cons.prems have z: "swr_convert_ret e = 0" and rest: "list_all (\<lambda>ee. swr_convert_ret (snd ee) = 0) ees"
    by (simp_all add: ee)
  show ?case
    using Cons.IH [OF Cons.prems(1) rest] z
    by (simp add: ee Resampler_read_raw_drained [OF Cons.prems(1)] is_EOF_def)
qed

subsection \<open>Errors carry no frames, and the flags of the resampler\<close>

lemma AudioStream_error_no_frames:
  "snd (snd (fst (AudioStream_read_raw e (audio, w)))) \<noteq> None \<Longrightarrow>
     fst (snd (fst (AudioStream_read_raw e (audio, w)))) = 0"
  by (simp add: AudioStream_read_raw_def split_beta split: option.splits if_splits)

lemma Resampler_error_no_frames:
  "snd (snd (fst (Resampler_read_raw P src ee (resamp, w)))) \<noteq> None \<Longrightarrow>
     fst (snd (fst (Resampler_read_raw P src ee (resamp, w)))) = 0"
proof -
  obtain es e where ee: "ee = (es, e)"
    by (cases ee)
  assume a: "snd (snd (fst (Resampler_read_raw P src ee (resamp, w)))) \<noteq> None"
  show ?thesis
  proof (cases "fst (Resampler_pull P src (es, e) (resamp, w))")
    case (Inl r)
    with Resampler_pull_early [OF Inl] show ?thesis
      by (simp add: ee Resampler_read_raw_result)
  next
    case (Inr x)
    with a show ?thesis
      by (simp add: ee Resampler_read_raw_result split: if_splits)
  qed
qed

lemma Resampler_source_EOF_sets_flag:
  "\<not> resamp_sourceEOF resamp \<Longrightarrow>
   snd (snd (fst (read_raw src es (resamp_source resamp, w)))) = Some EOF \<Longrightarrow>
     resamp_sourceEOF (fst (snd (Resampler_read_raw P src (es, e) (resamp, w))))"
  by (simp add: Resampler_read_raw_def Resampler_pull_def Let_def split_beta checkBuf_keeps
      split: sum.split option.split)

lemma Resampler_read_raw_sourceEOF:
  "resamp_sourceEOF (fst (snd (Resampler_read_raw P src (es, e) (resamp, w)))) \<longleftrightarrow>
     resamp_sourceEOF resamp \<or>
     snd (snd (fst (read_raw src es (resamp_source resamp, w)))) = Some EOF"
  by (simp add: Resampler_read_raw_def Resampler_pull_def Let_def split_beta checkBuf_keeps
      split: sum.split option.split error.split)




text \<open>
  With the exact arithmetic of \<open>sample_platform\<close> the required capacity is the ceiling of
  the frame count times the ratio, as long as that fits a \<^verbatim>\<open>C.int\<close>.
\<close>

lemma required_capacity_exact:
  assumes "- (2 ^ 31) \<le> \<lceil>of_int (sint n) * r\<rceil>" "\<lceil>of_int (sint n) * r\<rceil> < 2 ^ 31"
  shows "sint (required_capacity sample_platform r n) = \<lceil>of_int (sint n) * r\<rceil>"
proof -
  have "signed_take_bit 31 \<lceil>of_int (sint n) * r\<rceil> = \<lceil>of_int (sint n) * r\<rceil>"
    using assms by (intro signed_take_bit_int_eq_self) auto
  then show ?thesis
    by (simp add: required_capacity_def sample_platform_def sint_word_ariths signed_of_int)
qed

subsection \<open>The sample resampler is the one \<^verbatim>\<open>Resample\<close> builds\<close>


section \<open>Audio formats\<close>

text \<open>
  Claim C7, the plane count law. For every audio format: a packed storage gives
  \<^verbatim>\<open>NumPlanes() = 1\<close>, a planar storage gives \<^verbatim>\<open>NumPlanes() = NumChannels()\<close>, and any
  other storage value, the sentinel \<^verbatim>\<open>NoSamples\<close> among them, gives 0.
\<close>

theorem NumPlanes_packed_planar_other:
  "(Storage f \<in> {PackedU8s, PackedS16s, PackedS32s, PackedFloats, PackedDoubles}
      \<longrightarrow> NumPlanes P f = 1) \<and>
   (Storage f \<in> {PlanarU8s, PlanarS16s, PlanarS32s, PlanarFloats, PlanarDoubles}
      \<longrightarrow> NumPlanes P f = NumChannels P f) \<and>
   (Storage f \<notin> {PackedU8s, PackedS16s, PackedS32s, PackedFloats, PackedDoubles,
                   PlanarU8s, PlanarS16s, PlanarS32s, PlanarFloats, PlanarDoubles}
      \<longrightarrow> NumPlanes P f = 0) \<and>
   (Storage f = NoSamples \<longrightarrow> NumPlanes P f = 0)"
  by (auto simp: NumPlanes_def SampleFmt_defs)

theorem NumPlanes_packed_planar_other_witness:
  "NumPlanes sample_platform stereo_s16 = 1 \<and>
   NumPlanes sample_platform stereo_fltp = NumChannels sample_platform stereo_fltp \<and>
   NumPlanes sample_platform (stereo_s16\<lparr>Storage := 10\<rparr>) = 0 \<and>
   NumPlanes sample_platform (stereo_s16\<lparr>Storage := NoSamples\<rparr>) = 0"
  using NumPlanes_packed_planar_other [of stereo_s16 sample_platform]
    NumPlanes_packed_planar_other [of stereo_fltp sample_platform]
    NumPlanes_packed_planar_other [of "stereo_s16\<lparr>Storage := 10\<rparr>" sample_platform]
    NumPlanes_packed_planar_other [of "stereo_s16\<lparr>Storage := NoSamples\<rparr>" sample_platform]
  by (simp add: stereo_s16_def stereo_fltp_def SampleFmt_defs)

text \<open>
  Claim C5. \<^verbatim>\<open>f.Equal(f)\<close> is true for every format, and when the format of the source
  equals the target, \<^verbatim>\<open>Resample\<close> returns the very source with a nil error and leaves the
  world as it found it: no call is logged, so no converter context is allocated.
\<close>

theorem Equal_refl_Resample_identity:
  "Equal f f \<and>
   (Equal (Format src source) to \<longrightarrow>
      Resample P src e source to w = (Inr (The_source source), w))"
  by (simp add: Equal_def Resample_def Let_def)

theorem Equal_refl_Resample_identity_witness:
  "Equal stereo_fltp stereo_fltp \<and>
   Equal (Format AudioStream_iface audio0) stereo_fltp \<and>
   Resample sample_platform AudioStream_iface
     \<lparr>swr_alloc_set_opts_ret = 0x7000, swr_init_ret = 0, data_malloc_ret = 0x8000\<rparr>
     audio0 stereo_fltp world0 = (Inr (The_source audio0), world0)"
proof -
  have h: "Equal (Format AudioStream_iface audio0) stereo_fltp"
    by (simp add: sample_defs eval_defs)
  show ?thesis
    using h Equal_refl_Resample_identity [of stereo_fltp AudioStream_iface audio0 stereo_fltp
        sample_platform "\<lparr>swr_alloc_set_opts_ret = 0x7000, swr_init_ret = 0, data_malloc_ret = 0x8000\<rparr>" world0]
    by simp
qed

section \<open>The decoder stage\<close>

text \<open>
  Claim C6. When the decoder reports a consumed count \<open>0 \<le> decode_n\<close>, the count is
  first clamped to the remaining packet size, the size decreases and the read cursor moves
  by the clamped count \<open>n\<close>, and the remaining size is not negative afterwards.
\<close>

theorem decode_clamps_consumed:
  assumes "0 \<le>s decode_n e"
    and "decode e (audio, w) = (res, audio', w')"
    and "n = (if audio_pkt_size audio <s decode_n e then audio_pkt_size audio else decode_n e)"
  shows "snd res = None \<and>
         audio_pkt_size audio' = audio_pkt_size audio - n \<and>
         audio_pkt_data audio' = audio_pkt_data audio + scast n \<and>
         sint (audio_pkt_size audio') = sint (audio_pkt_size audio) - sint n \<and>
         0 \<le> sint (audio_pkt_size audio')"
proof -
  have nonneg: "0 \<le> sint (decode_n e)"
    using assms(1) by (simp add: word_sle_eq)
  then have notneg: "\<not> decode_n e <s 0"
    by (simp add: word_sless_alt)
  have upd: "snd res = None" "audio_pkt_size audio' = audio_pkt_size audio - n"
    "audio_pkt_data audio' = audio_pkt_data audio + scast n"
    using assms(2,3) notneg by (auto simp: decode_def Let_def)
  have diff: "sint (audio_pkt_size audio - n) = sint (audio_pkt_size audio) - sint n"
  proof (cases "audio_pkt_size audio <s decode_n e")
    case True
    then show ?thesis using assms(3) by simp
  next
    case False
    then have "sint (decode_n e) \<le> sint (audio_pkt_size audio)"
      by (simp add: word_sless_alt)
    with nonneg False show ?thesis
      using assms(3) by (simp add: ssub_cint)
  qed
  have "0 \<le> sint (audio_pkt_size audio) - sint n"
    using assms(3) nonneg by (auto simp: word_sless_alt)
  with upd diff show ?thesis by simp
qed

theorem decode_clamps_consumed_witness:
  "audio_pkt_size (fst (snd (decode env_no_frame (audio0\<lparr>audio_pkt_size := 1024\<rparr>, world0)))) = 0 \<and>
   audio_pkt_data (fst (snd (decode env_no_frame (audio0\<lparr>audio_pkt_size := 1024\<rparr>, world0)))) = 1024"
proof -
  let ?audio = "audio0\<lparr>audio_pkt_size := 1024\<rparr>"
  let ?D = "decode env_no_frame (?audio, world0)"
  have h1: "0 \<le>s decode_n env_no_frame"
    by (simp add: sample_defs eval_defs)
  have h2: "?D = (fst ?D, fst (snd ?D), snd (snd ?D))"
    by simp
  have h3: "(1024 :: cint) = (if audio_pkt_size ?audio <s decode_n env_no_frame
                     then audio_pkt_size ?audio else decode_n env_no_frame)"
    by (simp add: sample_defs eval_defs)
  show ?thesis
    using decode_clamps_consumed [OF h1 h2 h3] by (simp add: sample_defs)
qed

text \<open>
  Claim C3. When the first block of \<^verbatim>\<open>read_raw\<close> returns no error and the decode step
  succeeds: with a frame, the result is the frame's planes and sample count, which are the
  ones the decoder left, with a nil error; with no frame it is \<^verbatim>\<open>io.EOF\<close> if
  \<^verbatim>\<open>framesEOF\<close> is set and a zero-length result with a nil error otherwise.
  \<^verbatim>\<open>framesEOF\<close> is set when it was set before or when this call asked for a packet and
  the packet source answered with the end of the stream.
\<close>

theorem AudioStream_read_raw_after_decode:
  assumes "AudioStream_next_packet e (audio, w) = (None, audio1, w1)"
    and "decode e (audio1, w1) = ((gotFrame, None), audio', w')"
  shows "AudioStream_read_raw e (audio, w) =
           ((if gotFrame
             then (audio_frame_extended_data audio', audio_frame_nb_samples audio', None)
             else if audio_framesEOF audio' then (nil, 0, Some EOF)
             else (nil, 0, None)), audio', w') \<and>
         gotFrame = (decode_gotFrame e \<noteq> 0) \<and>
         audio_frame_extended_data audio' = decode_extended_data e \<and>
         audio_frame_nb_samples audio' = decode_nb_samples e \<and>
         audio_framesEOF audio' =
           (audio_framesEOF audio \<or> audio_pkt_size audio = 0 \<and> read_frame_r e = AVERROR_EOF)"
proof -
  have rr: "AudioStream_read_raw e (audio, w) =
           ((if gotFrame
             then (audio_frame_extended_data audio', audio_frame_nb_samples audio', None)
             else if audio_framesEOF audio' then (nil, 0, Some EOF)
             else (nil, 0, None)), audio', w')"
    using assms by (simp add: AudioStream_read_raw_def)
  have dec: "gotFrame = (decode_gotFrame e \<noteq> 0)"
    "audio_frame_extended_data audio' = decode_extended_data e"
    "audio_frame_nb_samples audio' = decode_nb_samples e"
    "audio_framesEOF audio' = audio_framesEOF audio1"
    using assms(2) by (auto simp: decode_def Let_def split: if_splits)
  have "audio_framesEOF audio1 =
          (audio_framesEOF audio \<or> audio_pkt_size audio = 0 \<and> read_frame_r e = AVERROR_EOF)"
    using assms(1)
    by (auto simp: AudioStream_next_packet_def read_frame_def Let_def avError_def AVERROR_EOF_def
        split: if_splits option.splits error.splits prod.splits)
  with rr dec show ?thesis by simp
qed

theorem AudioStream_read_raw_after_decode_witness:
  "fst (AudioStream_read_raw (env_frame 1024) (audio0, world0)) = (0x4000, 1024, None) \<and>
   fst (AudioStream_read_raw env_eof (audio0, world0)) = (nil, 0, Some EOF) \<and>
   fst (AudioStream_read_raw env_no_frame (audio0, world0)) = (nil, 0, None)"
proof -
  let ?N1 = "AudioStream_next_packet (env_frame 1024) (audio0, world0)"
  let ?N2 = "AudioStream_next_packet env_eof (audio0, world0)"
  let ?N3 = "AudioStream_next_packet env_no_frame (audio0, world0)"
  let ?D1 = "decode (env_frame 1024) (snd ?N1)"
  let ?D2 = "decode env_eof (snd ?N2)"
  let ?D3 = "decode env_no_frame (snd ?N3)"
  have n1: "?N1 = (None, fst (snd ?N1), snd (snd ?N1))"
    and n2: "?N2 = (None, fst (snd ?N2), snd (snd ?N2))"
    and n3: "?N3 = (None, fst (snd ?N3), snd (snd ?N3))"
    by (simp_all add: sample_defs eval_defs)
  have d1: "decode (env_frame 1024) (fst (snd ?N1), snd (snd ?N1)) =
              ((True, None), fst (snd ?D1), snd (snd ?D1))"
    and d2: "decode env_eof (fst (snd ?N2), snd (snd ?N2)) =
              ((False, None), fst (snd ?D2), snd (snd ?D2))"
    and d3: "decode env_no_frame (fst (snd ?N3), snd (snd ?N3)) =
              ((False, None), fst (snd ?D3), snd (snd ?D3))"
    by (simp_all add: sample_defs eval_defs)
  show ?thesis
    using AudioStream_read_raw_after_decode [OF n1 d1]
      AudioStream_read_raw_after_decode [OF n2 d2]
      AudioStream_read_raw_after_decode [OF n3 d3]
    by (simp add: sample_defs AVERROR_EOF_def)
qed

section \<open>The resample stage\<close>

text \<open>
  Claim C2. When a \<^verbatim>\<open>read_raw\<close> of a \<^verbatim>\<open>Resampler\<close> reaches \<^verbatim>\<open>swr_convert\<close>, it
  returns \<^verbatim>\<open>io.EOF\<close> if and only if the converter's output count is zero, whether or not
  the wrapped source is exhausted; otherwise it returns the resampler's plane table and
  the output count.
\<close>

theorem Resampler_EOF_iff_zero_output:
  assumes "Resampler_pull P src (es, e) (resamp, w) = (Inr (in_planes, nf), resamp1, w1)"
  shows "Resampler_read_raw P src (es, e) (resamp, w) =
           ((if swr_convert_ret e = 0 then (nil, 0, Some EOF)
             else (resamp_data resamp1, swr_convert_ret e, None)),
            resamp1,
            call (Call_swr_convert (resamp_ctx resamp1) (resamp_data resamp1)
                    (resamp_nf resamp1) in_planes nf) w1) \<and>
         (is_EOF (fst (Resampler_read_raw P src (es, e) (resamp, w)))
            \<longleftrightarrow> swr_convert_ret e = 0)"
  using assms by (simp add: Resampler_read_raw_def Let_def is_EOF_def)

theorem Resampler_EOF_iff_zero_output_witness:
  "fst (Resampler_read_raw sample_platform AudioStream_iface
          (env_frame 16, \<lparr>malloc_ret = 0x9000, swr_convert_ret = 0\<rparr>) (resamp0, world0)) =
     (nil, 0, Some EOF) \<and>
   fst (Resampler_read_raw sample_platform AudioStream_iface
          (env_frame 480, \<lparr>malloc_ret = 0x9000, swr_convert_ret = 441\<rparr>) (resamp0, world0)) =
     (0x8000, 441, None) \<and>
   fst (Resampler_read_raw sample_platform AudioStream_iface
          (env_eof, \<lparr>malloc_ret = 0x9000, swr_convert_ret = 0\<rparr>)
          (resamp0\<lparr>resamp_sourceEOF := True\<rparr>, world0)) =
     (nil, 0, Some EOF)"
proof -
  let ?e1 = "(env_frame 16, \<lparr>malloc_ret = 0x9000, swr_convert_ret = 0\<rparr>)"
  let ?e2 = "(env_frame 480, \<lparr>malloc_ret = 0x9000, swr_convert_ret = 441\<rparr>)"
  let ?e3 = "(env_eof, \<lparr>malloc_ret = 0x9000, swr_convert_ret = 0\<rparr>)"
  let ?P1 = "Resampler_pull sample_platform AudioStream_iface ?e1 (resamp0, world0)"
  let ?P2 = "Resampler_pull sample_platform AudioStream_iface ?e2 (resamp0, world0)"
  let ?P3 = "Resampler_pull sample_platform AudioStream_iface ?e3
               (resamp0\<lparr>resamp_sourceEOF := True\<rparr>, world0)"
  have p1: "?P1 = (Inr (0x4000, 16), fst (snd ?P1), snd (snd ?P1))"
    and p2: "?P2 = (Inr (0x4000, 480), fst (snd ?P2), snd (snd ?P2))"
    and p3: "?P3 = (Inr (nil, 0), fst (snd ?P3), snd (snd ?P3))"
    by (simp_all add: sample_defs eval_defs)
  have d: "resamp_data (fst (snd ?P2)) = 0x8000"
    by (simp add: sample_defs eval_defs)
  show ?thesis
    using Resampler_EOF_iff_zero_output [OF p1] Resampler_EOF_iff_zero_output [OF p2]
      Resampler_EOF_iff_zero_output [OF p3] d
    by simp
qed

text \<open>
  Claim C9. When the wrapped source is not exhausted and its \<^verbatim>\<open>read_raw\<close> returns zero
  frames with a nil error, the \<^verbatim>\<open>Resampler\<close> returns zero frames with a nil error, not
  \<^verbatim>\<open>io.EOF\<close>, and logs no call beyond those of the source: the converter is not invoked.
\<close>

theorem Resampler_zero_frames_not_EOF:
  assumes "\<not> resamp_sourceEOF resamp"
    and "read_raw src es (resamp_source resamp, w) = ((in_planes, 0, None), s, w1)"
  shows "Resampler_read_raw P src (es, e) (resamp, w) =
           ((nil, 0, None), resamp\<lparr>resamp_source := s\<rparr>, w1) \<and>
         \<not> is_EOF (fst (Resampler_read_raw P src (es, e) (resamp, w))) \<and>
         calls (snd (snd (Resampler_read_raw P src (es, e) (resamp, w)))) = calls w1"
  using assms by (simp add: Resampler_read_raw_def Resampler_pull_def Let_def is_EOF_def)

theorem Resampler_zero_frames_not_EOF_witness:
  "fst (Resampler_read_raw sample_platform AudioStream_iface
          (env_no_frame, \<lparr>malloc_ret = 0x9000, swr_convert_ret = 0\<rparr>) (resamp0, world0)) =
     (nil, 0, None) \<and>
   calls (snd (snd (Resampler_read_raw sample_platform AudioStream_iface
          (env_no_frame, \<lparr>malloc_ret = 0x9000, swr_convert_ret = 0\<rparr>) (resamp0, world0)))) =
     [Call_av_read_frame, Call_avcodec_decode_audio4 0x3000 1024]"
proof -
  let ?X = "read_raw AudioStream_iface env_no_frame (resamp_source resamp0, world0)"
  have h1: "\<not> resamp_sourceEOF resamp0"
    by (simp add: sample_defs)
  have h2: "?X = ((nil, 0, None), fst (snd ?X), snd (snd ?X))"
    by (simp add: sample_defs eval_defs)
  have c: "calls (snd (snd ?X)) = [Call_av_read_frame, Call_avcodec_decode_audio4 0x3000 1024]"
    by (simp add: sample_defs eval_defs)
  show ?thesis
    using Resampler_zero_frames_not_EOF [OF h1 h2, of sample_platform
        "\<lparr>malloc_ret = 0x9000, swr_convert_ret = 0\<rparr>"] c
    by simp
qed



section \<open>End of stream\<close>

text \<open>
  Claim C1 asks that a stream which returned \<^verbatim>\<open>io.EOF\<close> returns it ever after. The
  resampler \<open>resamp0\<close> breaks it. In the first call the decoder delivers a frame of 16
  samples, the converter keeps them and outputs nothing, and \<^verbatim>\<open>read_raw\<close> returns
  \<^verbatim>\<open>io.EOF\<close> although neither \<^verbatim>\<open>sourceEOF\<close> nor the \<^verbatim>\<open>framesEOF\<close> of the source
  is set. In the second call the decoder delivers 1024 samples and \<^verbatim>\<open>read_raw\<close> returns
  940 frames with a nil error.
\<close>

theorem Resampler_EOF_before_source_exhausted:
  "map fst (read_raw_seq (Resampler_read_raw sample_platform AudioStream_iface)
      [(env_frame 16, \<lparr>malloc_ret = 0x9000, swr_convert_ret = 0\<rparr>),
       (env_frame 1024, \<lparr>malloc_ret = 0xA000, swr_convert_ret = 940\<rparr>)]
      (resamp0, world0)) =
     [(nil, 0, Some EOF), (0x8000, 940, None)] \<and>
   \<not> resamp_sourceEOF (fst (snd (Resampler_read_raw sample_platform AudioStream_iface
      (env_frame 16, \<lparr>malloc_ret = 0x9000, swr_convert_ret = 0\<rparr>) (resamp0, world0)))) \<and>
   \<not> audio_framesEOF (resamp_source (fst (snd (Resampler_read_raw sample_platform
      AudioStream_iface (env_frame 16, \<lparr>malloc_ret = 0x9000, swr_convert_ret = 0\<rparr>)
      (resamp0, world0))))) \<and>
   \<not> eof_stable (map fst (read_raw_seq (Resampler_read_raw sample_platform AudioStream_iface)
      [(env_frame 16, \<lparr>malloc_ret = 0x9000, swr_convert_ret = 0\<rparr>),
       (env_frame 1024, \<lparr>malloc_ret = 0xA000, swr_convert_ret = 940\<rparr>)]
      (resamp0, world0)))"
  by (simp add: sample_defs eval_defs)

section \<open>The typed reader\<close>

text \<open>
  Claim C8. When the source returns a nil error and a plane table that is not nil,
  \<^verbatim>\<open>Read\<close> returns the slice whose \<^verbatim>\<open>Data\<close> is the first plane pointer of the table,
  read from memory and not copied, and whose length is the channel count times the frame
  count, as integers and without overflow; the world is the one the source left. When the
  source returns a nil table with a nil error, \<^verbatim>\<open>Read\<close> returns \<^verbatim>\<open>[]int16{}\<close> and a nil
  error.
\<close>

theorem Read_packed_slice:
  assumes "read_raw src e (stream_source stream, w) = ((data, nf, None), s, w')"
  shows "(data \<noteq> nil \<longrightarrow>
            Read P src e (stream, w) =
              ((Slice_header (mem w' data) (NumChannels P (Format src s) * scast nf)
                  (NumChannels P (Format src s) * scast nf), None),
               stream\<lparr>stream_source := s\<rparr>, w') \<and>
            sint (len (fst (fst (Read P src e (stream, w))))) =
              sint (av_get_channel_layout_nb_channels P (Layout (Format src s))) * sint nf) \<and>
         (data = nil \<longrightarrow>
            Read P src e (stream, w) = ((Empty_literal, None), stream\<lparr>stream_source := s\<rparr>, w'))"
  using assms by (simp add: Read_def Let_def NumChannels_def smul_cint)

theorem Read_packed_slice_witness:
  "fst (Read sample_platform AudioStream_iface (env_frame 1024)
          (\<lparr>stream_source = audio0\<lparr>audio_fmt := stereo_s16\<rparr>\<rparr>, world0)) =
     (Slice_header 0x5000 2048 2048, None) \<and>
   fst (Read sample_platform AudioStream_iface env_no_frame
          (\<lparr>stream_source = audio0\<lparr>audio_fmt := stereo_s16\<rparr>\<rparr>, world0)) =
     (Empty_literal, None)"
proof -
  let ?audio = "audio0\<lparr>audio_fmt := stereo_s16\<rparr>"
  let ?X = "read_raw AudioStream_iface (env_frame 1024) (?audio, world0)"
  let ?Y = "read_raw AudioStream_iface env_no_frame (?audio, world0)"
  have h1: "read_raw AudioStream_iface (env_frame 1024)
              (stream_source \<lparr>stream_source = ?audio\<rparr>, world0) =
             ((0x4000, 1024, None), fst (snd ?X), snd (snd ?X))"
    by (simp add: sample_defs eval_defs)
  have h2: "read_raw AudioStream_iface env_no_frame
              (stream_source \<lparr>stream_source = ?audio\<rparr>, world0) =
             ((nil, 0, None), fst (snd ?Y), snd (snd ?Y))"
    by (simp add: sample_defs eval_defs)
  have m: "mem (snd (snd ?X)) 0x4000 = 0x5000"
    "NumChannels sample_platform (Format AudioStream_iface (fst (snd ?X))) = 2"
    by (simp_all add: sample_defs eval_defs)
  show ?thesis
    using Read_packed_slice [OF h1, of sample_platform] Read_packed_slice [OF h2, of sample_platform] m
    by (simp add: nil_def)
qed

text \<open>
  Claim C10. When the source's \<^verbatim>\<open>read_raw\<close> returns an error, \<^verbatim>\<open>io.EOF\<close> included,
  \<^verbatim>\<open>Read\<close> returns \<^verbatim>\<open>[]int16{}\<close>, of length zero, together with that error.
\<close>

theorem Read_error_gives_empty_slice:
  assumes "read_raw src e (stream_source stream, w) = ((data, nf, Some err), s, w')"
  shows "Read P src e (stream, w) =
           ((Empty_literal, Some err), stream\<lparr>stream_source := s\<rparr>, w') \<and>
         len (fst (fst (Read P src e (stream, w)))) = 0"
  using assms by (simp add: Read_def Let_def)

theorem Read_error_gives_empty_slice_witness:
  "fst (Read sample_platform AudioStream_iface env_eof
          (\<lparr>stream_source = audio0\<lparr>audio_fmt := stereo_s16\<rparr>\<rparr>, world0)) =
     (Empty_literal, Some EOF)"
proof -
  let ?audio = "audio0\<lparr>audio_fmt := stereo_s16\<rparr>"
  let ?X = "read_raw AudioStream_iface env_eof (?audio, world0)"
  have h: "read_raw AudioStream_iface env_eof (stream_source \<lparr>stream_source = ?audio\<rparr>, world0) =
             ((0, 0, Some EOF), fst (snd ?X), snd (snd ?X))"
    by (simp add: sample_defs eval_defs)
  show ?thesis
    using Read_error_gives_empty_slice [OF h, of sample_platform] by simp
qed

end
